theory Spec2Isabelle
  imports Main
begin

section \<open>Values, configuration and the shared device state\<close>

text \<open>
  The responses of \<^verbatim>\<open>main.py\<close> are Python dictionaries (or pydantic models) that the
  web framework serialises as JSON objects. A dictionary literal is kept as an association
  list in the order of the source.
\<close>

datatype json =
    JBool bool
  | JInt int
  | JStr string
  | JArr "json list"
  | JObj "(string \<times> json) list"

fun field_of :: "json \<Rightarrow> string \<Rightarrow> json option" where
  "field_of (JObj kvs) k = map_of kvs k"
| "field_of _ k = None"

fun keys_of :: "json \<Rightarrow> string list" where
  "keys_of (JObj kvs) = map fst kvs"
| "keys_of _ = []"

text \<open>
  The module-level configuration variables (\<^verbatim>\<open>alpaca_port\<close>, \<^verbatim>\<open>UDP_PORT\<close>,
  \<^verbatim>\<open>DEVICE_NAME\<close>, ...) are read once from \<^verbatim>\<open>config.yaml\<close> merged over
  \<^verbatim>\<open>DEFAULT_CONFIG\<close> and never written again. They are a parameter of every operation
  here, typed as the defaults are.
\<close>

record config =
  alpaca_port :: int
  UDP_PORT :: int
  DEVICE_NAME :: string
  DEVICE_NUMBER :: int
  MANUFACTURER :: string
  DRIVER_VERSION :: string
  LOCATION :: string

definition DEFAULT_CONFIG :: config where
  "DEFAULT_CONFIG =
     \<lparr>alpaca_port = 11111, UDP_PORT = 32227, DEVICE_NAME = ''CloudWatcher'',
      DEVICE_NUMBER = 0, MANUFACTURER = ''Julian Brendlin'', DRIVER_VERSION = ''1.0.0'',
      LOCATION = ''My Observatory''\<rparr>"

definition SUPPORTED_ACTIONS :: "string list" where
  "SUPPORTED_ACTIONS = [''Action1'', ''Action2'', ''Action3'']"

definition DEVICE_TYPE :: string where
  "DEVICE_TYPE = ''safetymonitor''"

text \<open>
  \<^verbatim>\<open>str.lower()\<close> on the characters a \<^typ>\<open>char\<close> can hold: each ASCII capital
  becomes its small letter, every other byte stays. Strings are taken to be ASCII; what
  Python's \<^verbatim>\<open>lower\<close> does to letters beyond ASCII is not modelled.
\<close>

definition ascii_uppercase :: string where
  "ascii_uppercase = ''ABCDEFGHIJKLMNOPQRSTUVWXYZ''"

definition ascii_lowercase :: string where
  "ascii_lowercase = ''abcdefghijklmnopqrstuvwxyz''"

definition lower_char :: "char \<Rightarrow> char" where
  "lower_char c =
     (case map_of (zip ascii_uppercase ascii_lowercase) c of Some l \<Rightarrow> l | None \<Rightarrow> c)"

definition lower_str :: "string \<Rightarrow> string" where
  "lower_str s = map lower_char s"

definition UNIQUE_ID :: "config \<Rightarrow> string" where
  "UNIQUE_ID cfg = lower_str (DEVICE_NAME cfg) @ ''.'' @ DEVICE_TYPE @ ''.001''"

text \<open>Python's \<^verbatim>\<open>str\<close> of an integer and of a boolean, as the f-strings use it.\<close>

definition digit_char :: "nat \<Rightarrow> char" where
  "digit_char d = ''0123456789'' ! (d mod 10)"

fun str_nat :: "nat \<Rightarrow> string" where
  "str_nat n = (if n < 10 then [digit_char n] else str_nat (n div 10) @ [digit_char (n mod 10)])"

declare str_nat.simps [simp del]

definition str_int :: "int \<Rightarrow> string" where
  "str_int i = (if i < 0 then ''-'' @ str_nat (nat (- i)) else str_nat (nat i))"

definition str_bool :: "bool \<Rightarrow> string" where
  "str_bool b = (if b then ''True'' else ''False'')"

text \<open>
  The two global flags \<^verbatim>\<open>connected_status\<close> and \<^verbatim>\<open>is_safe_status\<close>, together with
  what the process has written so far: the lines given to \<^verbatim>\<open>print\<close> and the calls made
  to \<^verbatim>\<open>logging\<close> (each call is recorded with its level; which of them reach the log
  file depends on the configured level and is not modelled).
\<close>

datatype log_level = DEBUG | INFO | WARNING | ERROR

record world =
  connected_status :: bool
  is_safe_status :: bool
  console :: "string list"
  logged :: "(log_level \<times> string) list"

definition initial_world :: world where
  "initial_world = \<lparr>connected_status = False, is_safe_status = False, console = [], logged = []\<rparr>"

definition logging_call :: "log_level \<Rightarrow> string \<Rightarrow> world \<Rightarrow> world" where
  "logging_call lvl msg w = w\<lparr>logged := logged w @ [(lvl, msg)]\<rparr>"

definition print_line :: "string \<Rightarrow> world \<Rightarrow> world" where
  "print_line s w = w\<lparr>console := console w @ [s]\<rparr>"

section \<open>Endpoint functions\<close>

text \<open>
  Every endpoint function takes its declared parameters, the value \<open>now\<close> that
  \<^verbatim>\<open>int(time.time())\<close> has during the call, and the world; it returns the world it
  leaves and the dictionary it returns. Functions that only read the globals return the
  flags as they found them.
\<close>

definition generic_exception_handler :: "string \<Rightarrow> int \<Rightarrow> world \<Rightarrow> world \<times> json" where
  \<comment> \<open>the first argument is \<^verbatim>\<open>str(exc)\<close>; the request object is not consulted;
      this is the value the function returns, not what the server then sends\<close>
  "generic_exception_handler exc now w =
     (logging_call ERROR (''Unhandled exception: '' @ exc) w,
      JObj [(''ClientTransactionID'', JInt 0),
            (''ServerTransactionID'', JInt now),
            (''ErrorNumber'', JInt 1),
            (''ErrorMessage'', JStr exc)])"

definition get_safety_status :: "int \<Rightarrow> int \<Rightarrow> world \<Rightarrow> world \<times> json" where
  \<comment> \<open>the result is a \<^verbatim>\<open>BoolResponse\<close>: exactly its three declared fields\<close>
  "get_safety_status ClientTransactionID now w =
     (let w1 = logging_call INFO ''issafe endpoint called'' w;
          w2 = logging_call DEBUG
                 (''issafe called, ClientTransactionID='' @ str_int ClientTransactionID
                    @ '', is_safe='' @ str_bool (is_safe_status w1)) w1
      in (w2, JObj [(''Value'', JBool (is_safe_status w2)),
                    (''ClientTransactionID'', JInt ClientTransactionID),
                    (''ServerTransactionID'', JInt now)]))"

definition get_connected :: "int \<Rightarrow> int \<Rightarrow> int \<Rightarrow> world \<Rightarrow> world \<times> json" where
  "get_connected ClientID ClientTransactionID now w =
     (let w1 = logging_call DEBUG
                 (''connected GET called, ClientID='' @ str_int ClientID
                    @ '', ClientTransactionID='' @ str_int ClientTransactionID) w
      in (w1, JObj [(''Value'', JBool (connected_status w1)),
                    (''ClientTransactionID'', JInt ClientTransactionID),
                    (''ServerTransactionID'', JInt now),
                    (''ErrorNumber'', JInt 0),
                    (''ErrorMessage'', JStr [])]))"

definition connect_to_device :: "bool \<Rightarrow> int \<Rightarrow> int \<Rightarrow> int \<Rightarrow> world \<Rightarrow> world \<times> json" where
  "connect_to_device Connected ClientID ClientTransactionID now w =
     (let w1 = logging_call DEBUG
                 (''connect PUT called, Connected='' @ str_bool Connected
                    @ '', ClientID='' @ str_int ClientID
                    @ '', ClientTransactionID='' @ str_int ClientTransactionID) w;
          w2 = w1\<lparr>connected_status := Connected\<rparr>;
          connection_text = (if connected_status w2 then ''CONNECTED'' else ''DISCONNECTED'');
          w3 = print_line ([CHR 0x0D] @ ''Device '' @ connection_text @ ''   '') w2
      in (w3, JObj [(''ClientTransactionID'', JInt ClientTransactionID),
                    (''ServerTransactionID'', JInt now),
                    (''ErrorNumber'', JInt 0),
                    (''ErrorMessage'', JStr [])]))"

definition api_versions :: "world \<Rightarrow> world \<times> json" where
  "api_versions w =
     (logging_call DEBUG ''apiversions called'' w,
      JObj [(''Value'', JArr [JInt 1]),
            (''ClientTransactionID'', JInt 0),
            (''ServerTransactionID'', JInt 1)])"

definition description :: "config \<Rightarrow> world \<Rightarrow> world \<times> json" where
  "description cfg w =
     (logging_call DEBUG ''description called'' w,
      JObj [(''Value'', JObj [(''DeviceName'', JStr (DEVICE_NAME cfg)),
                              (''DeviceType'', JStr DEVICE_TYPE),
                              (''DeviceNumber'', JInt (DEVICE_NUMBER cfg)),
                              (''UniqueID'', JStr (UNIQUE_ID cfg)),
                              (''Manufacturer'', JStr (MANUFACTURER cfg)),
                              (''DriverVersion'', JStr (DRIVER_VERSION cfg)),
                              (''Location'', JStr (LOCATION cfg))]),
            (''ClientTransactionID'', JInt 0),
            (''ServerTransactionID'', JInt 2)])"

definition configured_devices :: "config \<Rightarrow> world \<Rightarrow> world \<times> json" where
  "configured_devices cfg w =
     (logging_call DEBUG ''configureddevices called'' w,
      JObj [(''Value'', JArr [JObj [(''DeviceName'', JStr (DEVICE_NAME cfg)),
                                    (''DeviceType'', JStr DEVICE_TYPE),
                                    (''DeviceNumber'', JInt (DEVICE_NUMBER cfg)),
                                    (''UniqueID'', JStr (UNIQUE_ID cfg))]]),
            (''ClientTransactionID'', JInt 0),
            (''ServerTransactionID'', JInt 3)])"

definition get_description :: "config \<Rightarrow> int \<Rightarrow> int \<Rightarrow> world \<Rightarrow> world \<times> json" where
  "get_description cfg ClientTransactionID now w =
     (let w1 = logging_call INFO ''description endpoint called'' w;
          description_str = DEVICE_NAME cfg @ '' SafetyMonitor from '' @ MANUFACTURER cfg;
          w2 = logging_call DEBUG
                 (''description called, ClientTransactionID='' @ str_int ClientTransactionID
                    @ '', description='' @ description_str) w1
      in (w2, JObj [(''Value'', JStr description_str),
                    (''ClientTransactionID'', JInt ClientTransactionID),
                    (''ServerTransactionID'', JInt now)]))"

definition get_driver_info :: "config \<Rightarrow> int \<Rightarrow> int \<Rightarrow> world \<Rightarrow> world \<times> json" where
  "get_driver_info cfg ClientTransactionID now w =
     (let w1 = logging_call INFO ''driverinfo endpoint called'' w;
          driver_info_str =
            DEVICE_NAME cfg @ '' v'' @ DRIVER_VERSION cfg @ '' by '' @ MANUFACTURER cfg;
          w2 = logging_call DEBUG
                 (''driverinfo called, ClientTransactionID='' @ str_int ClientTransactionID
                    @ '', driver_info='' @ driver_info_str) w1
      in (w2, JObj [(''Value'', JStr driver_info_str),
                    (''ClientTransactionID'', JInt ClientTransactionID),
                    (''ServerTransactionID'', JInt now)]))"

definition get_driver_version :: "config \<Rightarrow> int \<Rightarrow> int \<Rightarrow> world \<Rightarrow> world \<times> json" where
  "get_driver_version cfg ClientTransactionID now w =
     (logging_call INFO ''driverversion endpoint called'' w,
      JObj [(''Value'', JStr (DRIVER_VERSION cfg)),
            (''ClientTransactionID'', JInt ClientTransactionID),
            (''ServerTransactionID'', JInt now)])"

definition get_device_name :: "config \<Rightarrow> int \<Rightarrow> int \<Rightarrow> world \<Rightarrow> world \<times> json" where
  "get_device_name cfg ClientTransactionID now w =
     (logging_call INFO ''name endpoint called'' w,
      JObj [(''Value'', JStr (DEVICE_NAME cfg)),
            (''ClientTransactionID'', JInt ClientTransactionID),
            (''ServerTransactionID'', JInt now)])"

definition get_supported_actions :: "int \<Rightarrow> int \<Rightarrow> world \<Rightarrow> world \<times> json" where
  "get_supported_actions ClientTransactionID now w =
     (logging_call INFO ''supportedactions endpoint called'' w,
      JObj [(''Value'', JArr (map JStr SUPPORTED_ACTIONS)),
            (''ClientTransactionID'', JInt ClientTransactionID),
            (''ServerTransactionID'', JInt now)])"

definition set_safety_status :: "bool \<Rightarrow> int \<Rightarrow> int \<Rightarrow> int \<Rightarrow> world \<Rightarrow> world \<times> json" where
  "set_safety_status IsSafe ClientID ClientTransactionID now w =
     (let w1 = logging_call INFO (''setissafe endpoint called with IsSafe='' @ str_bool IsSafe) w;
          w2 = w1\<lparr>is_safe_status := IsSafe\<rparr>;
          status_text = (if is_safe_status w2 then ''SAFE'' else ''UNSAFE'');
          w3 = print_line ([CHR 0x0D] @ ''Current status: '' @ status_text @ ''   '') w2;
          w4 = logging_call INFO (''Safety status changed to: '' @ status_text) w3
      in (w4, JObj [(''ClientTransactionID'', JInt ClientTransactionID),
                    (''ServerTransactionID'', JInt now),
                    (''ErrorNumber'', JInt 0),
                    (''ErrorMessage'', JStr [])]))"

section \<open>Requests, parameter checks and routing\<close>

text \<open>
  The decorators \<^verbatim>\<open>@app.get\<close> and \<^verbatim>\<open>@app.put\<close> register each function under its path.
  The framework reads the declared parameters from the query string (\<^verbatim>\<open>Query\<close>) or from
  the form body (\<^verbatim>\<open>Form\<close>) and checks them before it calls the function:
  \<^verbatim>\<open>Query(0)\<close> is an optional integer with default 0, \<^verbatim>\<open>Form(...)\<close> is a required value,
  and \<^verbatim>\<open>ge=1, le=4294967295\<close> bound a required integer. A request that fails a check is
  answered with status 422 and the function is not called; all failures are reported, in
  the order of the declarations. Parameters a function does not declare are ignored.

  A parameter arrives as text. \<open>Absent\<close> is a parameter the request does not have,
  \<open>Garbled\<close> one whose text does not parse at the declared type, \<open>Supplied v\<close> one that
  parses to \<open>v\<close>.
\<close>

datatype 'a field = Absent | Garbled | Supplied 'a

datatype verror =
    Missing string
  | Unparsable string
  | BelowMinimum string
  | AboveMaximum string

fun optional_int :: "int \<Rightarrow> string \<Rightarrow> int field \<Rightarrow> verror list + int" where
  "optional_int d name Absent = Inr d"
| "optional_int d name Garbled = Inl [Unparsable name]"
| "optional_int d name (Supplied v) = Inr v"

fun required_int :: "int \<Rightarrow> int \<Rightarrow> string \<Rightarrow> int field \<Rightarrow> verror list + int" where
  "required_int lo hi name Absent = Inl [Missing name]"
| "required_int lo hi name Garbled = Inl [Unparsable name]"
| "required_int lo hi name (Supplied v) =
     (if v < lo then Inl [BelowMinimum name]
      else if hi < v then Inl [AboveMaximum name]
      else Inr v)"

fun required_bool :: "string \<Rightarrow> bool field \<Rightarrow> verror list + bool" where
  "required_bool name Absent = Inl [Missing name]"
| "required_bool name Garbled = Inl [Unparsable name]"
| "required_bool name (Supplied b) = Inr b"

fun errors_of :: "verror list + 'a \<Rightarrow> verror list" where
  "errors_of (Inl es) = es"
| "errors_of (Inr v) = []"

text \<open>
  A response is either the dictionary an endpoint function returned, sent with status 200,
  or the framework's rejection with status 422, whose body is the framework's own
  \<^verbatim>\<open>{"detail": [...]}\<close> object, kept here as the list of failed checks.
\<close>

datatype response = Reply json | Rejected "verror list"

fun status_code :: "response \<Rightarrow> nat" where
  "status_code (Reply j) = 200"
| "status_code (Rejected es) = 422"

definition is_client_error :: "response \<Rightarrow> bool" where
  "is_client_error r = (400 \<le> status_code r \<and> status_code r < 500)"

definition is_server_error :: "response \<Rightarrow> bool" where
  "is_server_error r = (500 \<le> status_code r \<and> status_code r < 600)"

fun accepted :: "world \<times> json \<Rightarrow> world \<times> response" where
  "accepted (w, j) = (w, Reply j)"

definition call1 ::
  "verror list + 'a \<Rightarrow> ('a \<Rightarrow> world \<Rightarrow> world \<times> json) \<Rightarrow> world \<Rightarrow> world \<times> response" where
  "call1 a h w = (case a of Inr x \<Rightarrow> accepted (h x w) | Inl es \<Rightarrow> (w, Rejected es))"

definition call2 ::
  "verror list + 'a \<Rightarrow> verror list + 'b \<Rightarrow> ('a \<Rightarrow> 'b \<Rightarrow> world \<Rightarrow> world \<times> json)
     \<Rightarrow> world \<Rightarrow> world \<times> response" where
  "call2 a b h w =
     (case (a, b) of
        (Inr x, Inr y) \<Rightarrow> accepted (h x y w)
      | _ \<Rightarrow> (w, Rejected (errors_of a @ errors_of b)))"

definition call3 ::
  "verror list + 'a \<Rightarrow> verror list + 'b \<Rightarrow> verror list + 'c
     \<Rightarrow> ('a \<Rightarrow> 'b \<Rightarrow> 'c \<Rightarrow> world \<Rightarrow> world \<times> json) \<Rightarrow> world \<Rightarrow> world \<times> response" where
  "call3 a b c h w =
     (case (a, b, c) of
        (Inr x, Inr y, Inr z) \<Rightarrow> accepted (h x y z w)
      | _ \<Rightarrow> (w, Rejected (errors_of a @ errors_of b @ errors_of c)))"

text \<open>
  The twelve JSON routes of the application. (The thirteenth route, \<^verbatim>\<open>/\<close>, serves a fixed
  HTML page and is not part of the protocol.) A request names its route and carries the
  four parameters the endpoint functions declare between them.
\<close>

datatype route =
    Route_issafe
  | Route_connected_get
  | Route_connected_put
  | Route_apiversions
  | Route_management_description
  | Route_configureddevices
  | Route_description
  | Route_driverinfo
  | Route_driverversion
  | Route_name
  | Route_supportedactions
  | Route_setissafe

record request =
  route :: route
  arg_Connected :: "bool field"
  arg_IsSafe :: "bool field"
  arg_ClientID :: "int field"
  arg_ClientTransactionID :: "int field"

definition id_range :: "string \<Rightarrow> int field \<Rightarrow> verror list + int" where
  \<comment> \<open>\<^verbatim>\<open>ge=1, le=4294967295\<close>\<close>
  "id_range = required_int 1 4294967295"

definition tid_default :: "int field \<Rightarrow> verror list + int" where
  \<comment> \<open>\<^verbatim>\<open>ClientTransactionID: int = Query(0)\<close>\<close>
  "tid_default = optional_int 0 ''ClientTransactionID''"

fun serve :: "config \<Rightarrow> int \<Rightarrow> request \<Rightarrow> world \<Rightarrow> world \<times> response" where
  "serve cfg now req w =
     (case route req of
        Route_issafe \<Rightarrow>
          call1 (tid_default (arg_ClientTransactionID req))
            (\<lambda>t. get_safety_status t now) w
      | Route_connected_get \<Rightarrow>
          call2 (id_range ''ClientID'' (arg_ClientID req))
                (id_range ''ClientTransactionID'' (arg_ClientTransactionID req))
            (\<lambda>c t. get_connected c t now) w
      | Route_connected_put \<Rightarrow>
          call3 (required_bool ''Connected'' (arg_Connected req))
                (id_range ''ClientID'' (arg_ClientID req))
                (id_range ''ClientTransactionID'' (arg_ClientTransactionID req))
            (\<lambda>b c t. connect_to_device b c t now) w
      | Route_apiversions \<Rightarrow> accepted (api_versions w)
      | Route_management_description \<Rightarrow> accepted (description cfg w)
      | Route_configureddevices \<Rightarrow> accepted (configured_devices cfg w)
      | Route_description \<Rightarrow>
          call1 (tid_default (arg_ClientTransactionID req))
            (\<lambda>t. get_description cfg t now) w
      | Route_driverinfo \<Rightarrow>
          call1 (tid_default (arg_ClientTransactionID req))
            (\<lambda>t. get_driver_info cfg t now) w
      | Route_driverversion \<Rightarrow>
          call1 (tid_default (arg_ClientTransactionID req))
            (\<lambda>t. get_driver_version cfg t now) w
      | Route_name \<Rightarrow>
          call1 (tid_default (arg_ClientTransactionID req))
            (\<lambda>t. get_device_name cfg t now) w
      | Route_supportedactions \<Rightarrow>
          call1 (tid_default (arg_ClientTransactionID req))
            (\<lambda>t. get_supported_actions t now) w
      | Route_setissafe \<Rightarrow>
          call3 (required_bool ''IsSafe'' (arg_IsSafe req))
                (id_range ''ClientID'' (arg_ClientID req))
                (id_range ''ClientTransactionID'' (arg_ClientTransactionID req))
            (\<lambda>b c t. set_safety_status b c t now) w)"

declare serve.simps [simp del]

text \<open>
  Requests served one after the other, each with the clock value of its own call. The
  result is the final world and the responses in order.
\<close>

fun serve_all :: "config \<Rightarrow> (int \<times> request) list \<Rightarrow> world \<Rightarrow> world \<times> response list" where
  "serve_all cfg [] w = (w, [])"
| "serve_all cfg ((now, req) # rest) w =
     (case serve cfg now req w of
        (w1, r) \<Rightarrow> (case serve_all cfg rest w1 of (w2, rs) \<Rightarrow> (w2, r # rs)))"

text \<open>The operations of the protocol as requests.\<close>

definition IsSafe_request :: "int field \<Rightarrow> request" where
  "IsSafe_request t =
     \<lparr>route = Route_issafe, arg_Connected = Absent, arg_IsSafe = Absent,
      arg_ClientID = Absent, arg_ClientTransactionID = t\<rparr>"

definition GetConnected_request :: "int field \<Rightarrow> int field \<Rightarrow> request" where
  "GetConnected_request c t =
     \<lparr>route = Route_connected_get, arg_Connected = Absent, arg_IsSafe = Absent,
      arg_ClientID = c, arg_ClientTransactionID = t\<rparr>"

definition SetConnected_request :: "bool field \<Rightarrow> int field \<Rightarrow> int field \<Rightarrow> request" where
  "SetConnected_request b c t =
     \<lparr>route = Route_connected_put, arg_Connected = b, arg_IsSafe = Absent,
      arg_ClientID = c, arg_ClientTransactionID = t\<rparr>"

definition SetSafe_request :: "bool field \<Rightarrow> int field \<Rightarrow> int field \<Rightarrow> request" where
  "SetSafe_request b c t =
     \<lparr>route = Route_setissafe, arg_Connected = Absent, arg_IsSafe = b,
      arg_ClientID = c, arg_ClientTransactionID = t\<rparr>"

text \<open>
  The routes by layer and kind: the nine routes under \<^verbatim>\<open>/api/v1/safetymonitor/N/\<close>,
  the three of them that answer with an error pair, the six simple reads, and the ten
  \<^verbatim>\<open>GET\<close> routes of both layers.
\<close>

definition device_routes :: "route list" where
  "device_routes =
     [Route_issafe, Route_connected_get, Route_connected_put, Route_description,
      Route_driverinfo, Route_driverversion, Route_name, Route_supportedactions,
      Route_setissafe]"

definition state_routes :: "route list" where
  "state_routes = [Route_connected_get, Route_connected_put, Route_setissafe]"

definition simple_read_routes :: "route list" where
  "simple_read_routes =
     [Route_issafe, Route_description, Route_driverinfo, Route_driverversion, Route_name,
      Route_supportedactions]"

definition read_routes :: "route list" where
  "read_routes =
     [Route_issafe, Route_connected_get, Route_description, Route_driverinfo,
      Route_driverversion, Route_name, Route_supportedactions, Route_apiversions,
      Route_management_description, Route_configureddevices]"

text \<open>
  A field of the dictionary a response carries. The body of a rejection has the single
  key \<^verbatim>\<open>detail\<close>; none of the protocol's fields is in it.
\<close>

fun reply_field :: "response \<Rightarrow> string \<Rightarrow> json option" where
  "reply_field (Reply j) k = field_of j k"
| "reply_field (Rejected es) k = None"

section \<open>The background loops\<close>

text \<open>
  Both background functions are \<^verbatim>\<open>while True\<close> loops that wait for the outside world.
  What the outside world does is given as a list, one entry per iteration; the loop runs
  until the list is used up and reports where control is then: still inside the loop
  (\<open>Running\<close>), left by \<^verbatim>\<open>break\<close> (\<open>Returned\<close>), or left by an exception that
  nothing caught (\<open>Raised\<close>).
\<close>

datatype exn = UnicodeDecodeError char | OSError string

datatype loop_status = Running | Returned | Raised exn

fun run_loop ::
  "('e \<Rightarrow> 'w \<Rightarrow> loop_status \<times> 'w) \<Rightarrow> 'e list \<Rightarrow> 'w \<Rightarrow> loop_status \<times> 'w" where
  "run_loop body [] w = (Running, w)"
| "run_loop body (e # es) w =
     (case body e w of
        (Running, w1) \<Rightarrow> run_loop body es w1
      | (Returned, w1) \<Rightarrow> (Returned, w1)
      | (Raised x, w1) \<Rightarrow> (Raised x, w1))"

subsection \<open>UDP discovery\<close>

text \<open>
  \<^verbatim>\<open>recvfrom\<close> returns the bytes of a datagram and the sender's address (host and port)
  or raises; \<^verbatim>\<open>sendto\<close> sends or raises. The text of a raised exception is what
  \<^verbatim>\<open>str(e)\<close> gives. A sent datagram is recorded as the destination and the dictionary
  handed to \<^verbatim>\<open>json.dumps\<close>.
\<close>

type_synonym addr = "string \<times> int"

datatype recv_result = Datagram string addr | RecvError string

datatype send_result = SendOk | SendError string

record net =
  world_of :: world
  sent :: "(addr \<times> json) list"

definition net_log :: "log_level \<Rightarrow> string \<Rightarrow> net \<Rightarrow> net" where
  "net_log lvl msg n = n\<lparr>world_of := logging_call lvl msg (world_of n)\<rparr>"

definition str_addr :: "addr \<Rightarrow> string" where
  \<comment> \<open>the tuple \<^verbatim>\<open>(host, port)\<close> in an f-string\<close>
  "str_addr a = ''('' @ [CHR 0x27] @ fst a @ [CHR 0x27] @ '', '' @ str_int (snd a) @ '')''"

definition discovery_response :: "config \<Rightarrow> json" where
  "discovery_response cfg =
     JObj [(''AlpacaPort'', JInt (alpaca_port cfg)),
           (''Manufacturer'', JStr (MANUFACTURER cfg)),
           (''ManufacturerVersion'', JStr (DRIVER_VERSION cfg)),
           (''DeviceName'', JStr (DEVICE_NAME cfg)),
           (''DeviceType'', JStr DEVICE_TYPE),
           (''DeviceNumber'', JInt (DEVICE_NUMBER cfg)),
           (''UniqueID'', JStr (UNIQUE_ID cfg))]"

definition discovery_try :: "config \<Rightarrow> recv_result \<times> send_result \<Rightarrow> net \<Rightarrow> (string + unit) \<times> net" where
  \<comment> \<open>the body of the \<^verbatim>\<open>try\<close>: \<open>Inl e\<close> is an exception with text \<open>e\<close> leaving it\<close>
  "discovery_try cfg ev n =
     (case fst ev of
        RecvError e \<Rightarrow> (Inl e, n)
      | Datagram data a \<Rightarrow>
          (let n1 = net_log DEBUG (''Received discovery request from '' @ str_addr a) n;
               response = discovery_response cfg
           in case snd ev of
                SendError e \<Rightarrow> (Inl e, n1)
              | SendOk \<Rightarrow>
                  (let n2 = n1\<lparr>sent := sent n1 @ [(a, response)]\<rparr>;
                       n3 = net_log DEBUG (''Sent discovery response to '' @ str_addr a) n2
                   in (Inr (), n3))))"

definition discovery_iteration :: "config \<Rightarrow> recv_result \<times> send_result \<Rightarrow> net \<Rightarrow> loop_status \<times> net" where
  "discovery_iteration cfg ev n =
     (case discovery_try cfg ev n of
        (Inr u, n1) \<Rightarrow> (Running, n1)
      | (Inl e, n1) \<Rightarrow> (Running, net_log ERROR (''Error in discovery listener: '' @ e) n1))"

definition start_discovery_listener ::
  "config \<Rightarrow> string option \<Rightarrow> (recv_result \<times> send_result) list \<Rightarrow> net \<Rightarrow> loop_status \<times> net" where
  \<comment> \<open>the second argument: \<open>Some e\<close> when creating or binding the socket raises\<close>
  "start_discovery_listener cfg bind_failure evs n =
     (case bind_failure of
        Some e \<Rightarrow> (Raised (OSError e), n)
      | None \<Rightarrow>
          run_loop (discovery_iteration cfg) evs
            (net_log INFO
               (''Listening for Alpaca discovery on UDP port '' @ str_int (UDP_PORT cfg)) n))"

subsection \<open>Keyboard control\<close>

text \<open>
  One iteration polls \<^verbatim>\<open>msvcrt.kbhit()\<close>; when a key is waiting, \<^verbatim>\<open>msvcrt.getch()\<close>
  returns one byte, which is decoded as UTF-8 and lower-cased. A single byte is valid
  UTF-8 exactly when it is below 128; decoding any other byte raises
  \<^verbatim>\<open>UnicodeDecodeError\<close>, and the loop has no handler for it. The sleep of a tenth of
  a second between two polls is not modelled.
\<close>

datatype key_poll = NoKey | KeyHit char

definition decode_utf8 :: "char \<Rightarrow> exn + char" where
  "decode_utf8 b = (if (of_char b :: nat) < 128 then Inr b else Inl (UnicodeDecodeError b))"

definition keyboard_iteration :: "key_poll \<Rightarrow> world \<Rightarrow> loop_status \<times> world" where
  "keyboard_iteration p w =
     (case p of
        NoKey \<Rightarrow> (Running, w)
      | KeyHit b \<Rightarrow>
          (case decode_utf8 b of
             Inl x \<Rightarrow> (Raised x, w)
           | Inr c \<Rightarrow>
               (let key = lower_char c
                in if key = CHR ''s'' then
                     (let w1 = w\<lparr>is_safe_status := \<not> is_safe_status w\<rparr>;
                          status_text = (if is_safe_status w1 then ''SAFE'' else ''UNSAFE'');
                          w2 = print_line
                                 ([CHR 0x0D] @ ''Current status: '' @ status_text @ ''   '') w1;
                          w3 = logging_call INFO (''Safety status changed to: '' @ status_text) w2
                      in (Running, w3))
                   else if key = CHR ''q'' then
                     (Returned,
                      print_line
                        ([CHR 0x0A] @ ''Keyboard monitoring stopped. Server is still running.'') w)
                   else (Running, w))))"

definition keyboard_banner :: "world \<Rightarrow> world" where
  "keyboard_banner w =
     (let w1 = print_line ([CHR 0x0A] @ ''===== Python Safety Monitor Keyboard Control ====='') w;
          w2 = print_line ''Press 's' to toggle safety status (SAFE/UNSAFE)'' w1;
          w3 = print_line ''Press 'q' to quit (server will continue running)'' w2;
          w4 = print_line ''Current status: UNSAFE'' w3
      in print_line (''======================================================'' @ [CHR 0x0A]) w4)"

definition monitor_keyboard :: "key_poll list \<Rightarrow> world \<Rightarrow> loop_status \<times> world" where
  "monitor_keyboard polls w = run_loop keyboard_iteration polls (keyboard_banner w)"

section \<open>Facts shared by the proofs\<close>

lemma logging_call_keeps [simp]:
  "connected_status (logging_call lvl msg w) = connected_status w"
  "is_safe_status (logging_call lvl msg w) = is_safe_status w"
  "console (logging_call lvl msg w) = console w"
  by (simp_all add: logging_call_def)

lemma print_line_keeps [simp]:
  "connected_status (print_line s w) = connected_status w"
  "is_safe_status (print_line s w) = is_safe_status w"
  "logged (print_line s w) = logged w"
  by (simp_all add: print_line_def)

lemmas endpoint_defs =
  get_safety_status_def get_connected_def connect_to_device_def api_versions_def
  description_def configured_devices_def get_description_def get_driver_info_def
  get_driver_version_def get_device_name_def get_supported_actions_def
  set_safety_status_def

lemmas call_defs = call1_def call2_def call3_def id_range_def tid_default_def

lemmas request_defs =
  IsSafe_request_def GetConnected_request_def SetConnected_request_def SetSafe_request_def

lemma device_reply_transaction_ids:
  assumes "route req \<in> set device_routes"
      and "snd (serve cfg now req w) = Reply body"
  shows "field_of body ''ClientTransactionID'' =
           Some (JInt (case arg_ClientTransactionID req of Supplied v \<Rightarrow> v | _ \<Rightarrow> 0))"
    and "field_of body ''ServerTransactionID'' = Some (JInt now)"
  using assms
  by (auto simp: device_routes_def serve.simps call_defs endpoint_defs Let_def
           split: sum.splits field.splits if_splits)

lemma SetConnected_effect:
  assumes "route req = Route_connected_put" and "arg_Connected req = Supplied b"
      and "status_code (snd (serve cfg now req w)) = 200"
  shows "connected_status (fst (serve cfg now req w)) = b"
    and "is_safe_status (fst (serve cfg now req w)) = is_safe_status w"
  using assms
  by (auto simp: serve.simps call_defs endpoint_defs Let_def split: sum.splits)

lemma SetConnected_keeps_is_safe:
  "route req = Route_connected_put \<Longrightarrow>
     is_safe_status (fst (serve cfg now req w)) = is_safe_status w"
  by (auto simp: serve.simps call_defs endpoint_defs Let_def split: sum.splits)

lemma SetSafe_effect:
  assumes "route req = Route_setissafe" and "arg_IsSafe req = Supplied b"
      and "status_code (snd (serve cfg now req w)) = 200"
  shows "is_safe_status (fst (serve cfg now req w)) = b"
    and "connected_status (fst (serve cfg now req w)) = connected_status w"
  using assms
  by (auto simp: serve.simps call_defs endpoint_defs Let_def split: sum.splits)

lemma serve_all_SetConnected_keeps_is_safe:
  "list_all (\<lambda>p. route (snd p) = Route_connected_put) cs \<Longrightarrow>
     is_safe_status (fst (serve_all cfg cs w)) = is_safe_status w"
proof (induction cs arbitrary: w)
  case Nil
  show ?case by simp
next
  case (Cons p cs)
  obtain now req where p: "p = (now, req)" by (cases p)
  from Cons.prems p have r: "route req = Route_connected_put"
    and rest: "list_all (\<lambda>p. route (snd p) = Route_connected_put) cs" by simp_all
  obtain w1 r1 where s: "serve cfg now req w = (w1, r1)" by (cases "serve cfg now req w")
  have "is_safe_status w1 = is_safe_status w"
    using SetConnected_keeps_is_safe [OF r, of cfg now w] s by simp
  moreover have "is_safe_status (fst (serve_all cfg cs w1)) = is_safe_status w1"
    by (rule Cons.IH [OF rest])
  ultimately show ?case
    using p s by (simp add: case_prod_beta)
qed

lemma IsSafe_reports_flag:
  assumes "route q = Route_issafe" and "snd (serve cfg now q w) = Reply body"
  shows "field_of body ''Value'' = Some (JBool (is_safe_status w))"
  using assms
  by (auto simp: serve.simps call_defs endpoint_defs Let_def split: sum.splits)

lemma GetConnected_reports_flag:
  assumes "route q = Route_connected_get" and "snd (serve cfg now q w) = Reply body"
  shows "field_of body ''Value'' = Some (JBool (connected_status w))"
  using assms
  by (auto simp: serve.simps call_defs endpoint_defs Let_def split: sum.splits)

lemma IsSafe_reply:
  "snd (serve cfg t (IsSafe_request tid) w) =
     (case tid of
        Garbled \<Rightarrow> Rejected [Unparsable ''ClientTransactionID'']
      | Absent \<Rightarrow> Reply (JObj [(''Value'', JBool (is_safe_status w)),
                               (''ClientTransactionID'', JInt 0),
                               (''ServerTransactionID'', JInt t)])
      | Supplied v \<Rightarrow> Reply (JObj [(''Value'', JBool (is_safe_status w)),
                                   (''ClientTransactionID'', JInt v),
                                   (''ServerTransactionID'', JInt t)]))"
  by (cases tid)
     (simp_all add: IsSafe_request_def serve.simps call_defs get_safety_status_def Let_def)

lemma SetSafe_reply:
  assumes "1 \<le> c" "c \<le> 4294967295" "1 \<le> v" "v \<le> 4294967295"
  shows "snd (serve cfg t (SetSafe_request (Supplied b) (Supplied c) (Supplied v)) w) =
           Reply (JObj [(''ClientTransactionID'', JInt v), (''ServerTransactionID'', JInt t),
                        (''ErrorNumber'', JInt 0), (''ErrorMessage'', JStr [])])"
    and "is_safe_status (fst (serve cfg t (SetSafe_request (Supplied b) (Supplied c) (Supplied v)) w))
           = b"
  using assms
  by (simp_all add: SetSafe_request_def serve.simps call_defs set_safety_status_def Let_def)

lemma run_loop_append:
  "run_loop body (es1 @ es2) w =
     (case run_loop body es1 w of
        (Running, w1) \<Rightarrow> run_loop body es2 w1
      | (Returned, w1) \<Rightarrow> (Returned, w1)
      | (Raised x, w1) \<Rightarrow> (Raised x, w1))"
  by (induction es1 arbitrary: w) (auto split: prod.splits loop_status.splits)

lemma discovery_iteration_Running: "fst (discovery_iteration cfg ev n) = Running"
  by (simp add: discovery_iteration_def split: prod.splits sum.splits)

lemma discovery_loop_Running: "fst (run_loop (discovery_iteration cfg) evs n) = Running"
proof (induction evs arbitrary: n)
  case Nil
  show ?case by simp
next
  case (Cons ev evs)
  obtain st n1 where it: "discovery_iteration cfg ev n = (st, n1)"
    by (cases "discovery_iteration cfg ev n")
  with discovery_iteration_Running [of cfg ev n] have "st = Running" by simp
  with it Cons.IH [of n1] show ?case by simp
qed

subsection \<open>The keyboard loop, key by key\<close>

lemma lower_char_cases:
  "lower_char c = c \<or> (c, lower_char c) \<in> set (zip ascii_uppercase ascii_lowercase)"
  by (auto simp: lower_char_def split: option.splits dest: map_of_SomeD)

lemma lower_char_is_s: "lower_char c = CHR ''s'' \<longleftrightarrow> c = CHR ''s'' \<or> c = CHR ''S''"
proof
  assume l: "lower_char c = CHR ''s''"
  have "lower_char c = c \<or> (c, lower_char c) \<in> set (zip ascii_uppercase ascii_lowercase)"
    by (rule lower_char_cases)
  then show "c = CHR ''s'' \<or> c = CHR ''S''"
  proof
    assume "lower_char c = c"
    with l show ?thesis by simp
  next
    assume "(c, lower_char c) \<in> set (zip ascii_uppercase ascii_lowercase)"
    then have "(c, CHR ''s'') \<in> set (zip ascii_uppercase ascii_lowercase)"
      by (simp only: l)
    then have "c = CHR ''S''"
      by (simp add: ascii_uppercase_def ascii_lowercase_def)
    then show ?thesis by simp
  qed
next
  assume "c = CHR ''s'' \<or> c = CHR ''S''"
  then show "lower_char c = CHR ''s''"
  proof
    assume "c = CHR ''s''"
    then show ?thesis by (simp add: lower_char_def ascii_uppercase_def ascii_lowercase_def)
  next
    assume "c = CHR ''S''"
    then show ?thesis by (simp add: lower_char_def ascii_uppercase_def ascii_lowercase_def)
  qed
qed

lemma lower_char_is_q: "lower_char c = CHR ''q'' \<longleftrightarrow> c = CHR ''q'' \<or> c = CHR ''Q''"
proof
  assume l: "lower_char c = CHR ''q''"
  have "lower_char c = c \<or> (c, lower_char c) \<in> set (zip ascii_uppercase ascii_lowercase)"
    by (rule lower_char_cases)
  then show "c = CHR ''q'' \<or> c = CHR ''Q''"
  proof
    assume "lower_char c = c"
    with l show ?thesis by simp
  next
    assume "(c, lower_char c) \<in> set (zip ascii_uppercase ascii_lowercase)"
    then have "(c, CHR ''q'') \<in> set (zip ascii_uppercase ascii_lowercase)"
      by (simp only: l)
    then have "c = CHR ''Q''"
      by (simp add: ascii_uppercase_def ascii_lowercase_def)
    then show ?thesis by simp
  qed
next
  assume "c = CHR ''q'' \<or> c = CHR ''Q''"
  then show "lower_char c = CHR ''q''"
  proof
    assume "c = CHR ''q''"
    then show ?thesis by (simp add: lower_char_def ascii_uppercase_def ascii_lowercase_def)
  next
    assume "c = CHR ''Q''"
    then show ?thesis by (simp add: lower_char_def ascii_uppercase_def ascii_lowercase_def)
  qed
qed

lemma key_is_toggle:
  "b = CHR ''s'' \<or> b = CHR ''S'' \<Longrightarrow>
     decode_utf8 b = Inr b \<and> lower_char b = CHR ''s''"
  by (auto simp: decode_utf8_def lower_char_is_s)

lemma key_is_quit:
  "b = CHR ''q'' \<or> b = CHR ''Q'' \<Longrightarrow>
     decode_utf8 b = Inr b \<and> lower_char b = CHR ''q'' \<and> lower_char b \<noteq> CHR ''s''"
  by (auto simp: decode_utf8_def lower_char_is_s lower_char_is_q)

lemma toggle_key_negates:
  assumes "b = CHR ''s'' \<or> b = CHR ''S''"
  shows "fst (keyboard_iteration (KeyHit b) w) = Running"
    and "is_safe_status (snd (keyboard_iteration (KeyHit b) w)) = (\<not> is_safe_status w)"
    and "connected_status (snd (keyboard_iteration (KeyHit b) w)) = connected_status w"
  using key_is_toggle [OF assms]
  by (simp_all add: keyboard_iteration_def Let_def logging_call_def print_line_def)

lemma quit_key_returns:
  assumes "b = CHR ''q'' \<or> b = CHR ''Q''"
  shows "fst (keyboard_iteration (KeyHit b) w) = Returned"
    and "is_safe_status (snd (keyboard_iteration (KeyHit b) w)) = is_safe_status w"
    and "connected_status (snd (keyboard_iteration (KeyHit b) w)) = connected_status w"
  using key_is_quit [OF assms]
  by (simp_all add: keyboard_iteration_def Let_def logging_call_def print_line_def)

lemma toggle_twice_restores:
  assumes "b = CHR ''s'' \<or> b = CHR ''S''" and "b' = CHR ''s'' \<or> b' = CHR ''S''"
  shows "fst (run_loop keyboard_iteration [KeyHit b, KeyHit b'] w) = Running"
    and "is_safe_status (snd (run_loop keyboard_iteration [KeyHit b, KeyHit b'] w))
           = is_safe_status w"
proof -
  obtain w1 where s1: "keyboard_iteration (KeyHit b) w = (Running, w1)"
    using toggle_key_negates(1) [OF assms(1), of w]
    by (cases "keyboard_iteration (KeyHit b) w") simp
  obtain w2 where s2: "keyboard_iteration (KeyHit b') w1 = (Running, w2)"
    using toggle_key_negates(1) [OF assms(2), of w1]
    by (cases "keyboard_iteration (KeyHit b') w1") simp
  have "is_safe_status w1 = (\<not> is_safe_status w)"
    using toggle_key_negates(2) [OF assms(1), of w] s1 by simp
  moreover have "is_safe_status w2 = (\<not> is_safe_status w1)"
    using toggle_key_negates(2) [OF assms(2), of w1] s2 by simp
  ultimately show "fst (run_loop keyboard_iteration [KeyHit b, KeyHit b'] w) = Running"
    and "is_safe_status (snd (run_loop keyboard_iteration [KeyHit b, KeyHit b'] w))
           = is_safe_status w"
    using s1 s2 by simp_all
qed

lemma other_ascii_key_ignored:
  assumes "(of_char b :: nat) < 128"
      and "b \<notin> {CHR ''s'', CHR ''S'', CHR ''q'', CHR ''Q''}"
  shows "keyboard_iteration (KeyHit b) w = (Running, w)"
  using assms
  by (simp add: keyboard_iteration_def decode_utf8_def lower_char_is_s lower_char_is_q Let_def)

lemma no_key_ignored: "keyboard_iteration NoKey w = (Running, w)"
  by (simp add: keyboard_iteration_def)

lemma undecodable_key_raises:
  assumes "128 \<le> (of_char b :: nat)"
  shows "keyboard_iteration (KeyHit b) w = (Raised (UnicodeDecodeError b), w)"
  using assms by (simp add: keyboard_iteration_def decode_utf8_def)

lemma toggle_seen_by_IsSafe:
  assumes "b = CHR ''s'' \<or> b = CHR ''S''" and "route q = Route_issafe"
      and "snd (serve cfg now q (snd (keyboard_iteration (KeyHit b) w))) = Reply body"
  shows "field_of body ''Value'' = Some (JBool (\<not> is_safe_status w))"
  using IsSafe_reports_flag [OF assms(2) assms(3)] toggle_key_negates(2) [OF assms(1), of w]
  by simp

section \<open>The claims\<close>

text \<open>
  Claim C1, as amended. For every request to a Device API route that supplies an integer
  \<^verbatim>\<open>ClientTransactionID\<close> and is accepted (it passes the parameter checks and an
  endpoint function answers it), the \<^verbatim>\<open>ClientTransactionID\<close> of the response equals the
  supplied value exactly.
\<close>

theorem device_reply_echoes_ClientTransactionID:
  assumes "route req \<in> set device_routes"
      and "arg_ClientTransactionID req = Supplied v"
      and "snd (serve cfg now req w) = Reply body"
  shows "field_of body ''ClientTransactionID'' = Some (JInt v)"
  using device_reply_transaction_ids(1) [OF assms(1) assms(3)] assms(2) by simp

text \<open>The amended claim C1 at \<^verbatim>\<open>SetSafe(IsSafe=true, ClientID=1, ClientTransactionID=5)\<close>.\<close>

theorem device_reply_echoes_ClientTransactionID_witness:
  "route (SetSafe_request (Supplied True) (Supplied 1) (Supplied 5)) \<in> set device_routes
 \<and> arg_ClientTransactionID (SetSafe_request (Supplied True) (Supplied 1) (Supplied 5))
     = Supplied 5
 \<and> snd (serve DEFAULT_CONFIG 100 (SetSafe_request (Supplied True) (Supplied 1) (Supplied 5))
          initial_world)
     = Reply (JObj [(''ClientTransactionID'', JInt 5), (''ServerTransactionID'', JInt 100),
                    (''ErrorNumber'', JInt 0), (''ErrorMessage'', JStr [])])
 \<and> field_of (JObj [(''ClientTransactionID'', JInt 5), (''ServerTransactionID'', JInt 100),
                    (''ErrorNumber'', JInt 0), (''ErrorMessage'', JStr [])])
       ''ClientTransactionID'' = Some (JInt 5)"
  using device_reply_echoes_ClientTransactionID
          [of "SetSafe_request (Supplied True) (Supplied 1) (Supplied 5)" 5 DEFAULT_CONFIG 100
              initial_world
              "JObj [(''ClientTransactionID'', JInt 5), (''ServerTransactionID'', JInt 100),
                     (''ErrorNumber'', JInt 0), (''ErrorMessage'', JStr [])]"]
  by (simp add: request_defs device_routes_def serve.simps call_defs endpoint_defs Let_def)

text \<open>
  Claim C1 as stated fails. A request to \<^verbatim>\<open>/management/apiversions\<close> that supplies
  \<^verbatim>\<open>ClientTransactionID=5\<close> is answered with \<^verbatim>\<open>ClientTransactionID\<close> 0; a
  \<^verbatim>\<open>SetConnected\<close> with \<^verbatim>\<open>ClientID=0\<close> and \<^verbatim>\<open>ClientTransactionID=5\<close> is answered
  with a rejection that carries no \<^verbatim>\<open>ClientTransactionID\<close>; and the response built by
  \<^verbatim>\<open>generic_exception_handler\<close> carries 0 whatever the request was.
\<close>

theorem ClientTransactionID_echo_counterexample:
  "arg_ClientTransactionID
     \<lparr>route = Route_apiversions, arg_Connected = Absent, arg_IsSafe = Absent,
      arg_ClientID = Supplied 1, arg_ClientTransactionID = Supplied 5\<rparr> = Supplied 5
 \<and> reply_field (snd (serve DEFAULT_CONFIG 1700000000
       \<lparr>route = Route_apiversions, arg_Connected = Absent, arg_IsSafe = Absent,
        arg_ClientID = Supplied 1, arg_ClientTransactionID = Supplied 5\<rparr> initial_world))
     ''ClientTransactionID'' = Some (JInt 0)
 \<and> reply_field (snd (serve DEFAULT_CONFIG 1700000000
       \<lparr>route = Route_apiversions, arg_Connected = Absent, arg_IsSafe = Absent,
        arg_ClientID = Supplied 1, arg_ClientTransactionID = Supplied 5\<rparr> initial_world))
     ''ClientTransactionID'' \<noteq> Some (JInt 5)
 \<and> snd (serve DEFAULT_CONFIG 1700000000
       (SetConnected_request (Supplied True) (Supplied 0) (Supplied 5)) initial_world)
     = Rejected [BelowMinimum ''ClientID'']
 \<and> field_of (snd (generic_exception_handler ''boom'' 1700000000 initial_world))
     ''ClientTransactionID'' = Some (JInt 0)"
  by (simp add: request_defs serve.simps call_defs endpoint_defs generic_exception_handler_def)

text \<open>
  Claim C2, as amended. Every accepted response of \<^verbatim>\<open>GetConnected\<close>, \<^verbatim>\<open>SetConnected\<close>
  and \<^verbatim>\<open>SetSafe\<close> carries \<^verbatim>\<open>ErrorNumber\<close> 0 and the empty \<^verbatim>\<open>ErrorMessage\<close>; every
  accepted response of the simple reads \<^verbatim>\<open>IsSafe\<close>, \<^verbatim>\<open>Description\<close>, \<^verbatim>\<open>DriverInfo\<close>,
  \<^verbatim>\<open>DriverVersion\<close>, \<^verbatim>\<open>Name\<close> and \<^verbatim>\<open>SupportedActions\<close> carries exactly the fields
  \<^verbatim>\<open>Value\<close>, \<^verbatim>\<open>ClientTransactionID\<close> and \<^verbatim>\<open>ServerTransactionID\<close>.
\<close>

theorem error_pair_by_route:
  "(route req \<in> set state_routes \<and> snd (serve cfg now req w) = Reply body
    \<longrightarrow> field_of body ''ErrorNumber'' = Some (JInt 0)
      \<and> field_of body ''ErrorMessage'' = Some (JStr []))
 \<and> (route req' \<in> set simple_read_routes \<and> snd (serve cfg now' req' w') = Reply body'
    \<longrightarrow> keys_of body' = [''Value'', ''ClientTransactionID'', ''ServerTransactionID''])"
  by (auto simp: state_routes_def simple_read_routes_def serve.simps call_defs endpoint_defs
                 Let_def split: sum.splits)

text \<open>
  The amended claim C2 at \<^verbatim>\<open>SetConnected(Connected=true, ClientID=1, ClientTransactionID=5)\<close>
  and at \<^verbatim>\<open>IsSafe(ClientTransactionID=6)\<close>.
\<close>

theorem error_pair_by_route_witness:
  "route (SetConnected_request (Supplied True) (Supplied 1) (Supplied 5)) \<in> set state_routes
 \<and> snd (serve DEFAULT_CONFIG 100 (SetConnected_request (Supplied True) (Supplied 1) (Supplied 5))
          initial_world)
     = Reply (JObj [(''ClientTransactionID'', JInt 5), (''ServerTransactionID'', JInt 100),
                    (''ErrorNumber'', JInt 0), (''ErrorMessage'', JStr [])])
 \<and> field_of (JObj [(''ClientTransactionID'', JInt 5), (''ServerTransactionID'', JInt 100),
                    (''ErrorNumber'', JInt 0), (''ErrorMessage'', JStr [])]) ''ErrorNumber''
     = Some (JInt 0)
 \<and> field_of (JObj [(''ClientTransactionID'', JInt 5), (''ServerTransactionID'', JInt 100),
                    (''ErrorNumber'', JInt 0), (''ErrorMessage'', JStr [])]) ''ErrorMessage''
     = Some (JStr [])
 \<and> route (IsSafe_request (Supplied 6)) \<in> set simple_read_routes
 \<and> snd (serve DEFAULT_CONFIG 101 (IsSafe_request (Supplied 6)) initial_world)
     = Reply (JObj [(''Value'', JBool False), (''ClientTransactionID'', JInt 6),
                    (''ServerTransactionID'', JInt 101)])
 \<and> keys_of (JObj [(''Value'', JBool False), (''ClientTransactionID'', JInt 6),
                   (''ServerTransactionID'', JInt 101)])
     = [''Value'', ''ClientTransactionID'', ''ServerTransactionID'']"
  using error_pair_by_route
          [where req = "SetConnected_request (Supplied True) (Supplied 1) (Supplied 5)"
             and cfg = DEFAULT_CONFIG and now = 100 and w = initial_world
             and body = "JObj [(''ClientTransactionID'', JInt 5),
                               (''ServerTransactionID'', JInt 100),
                               (''ErrorNumber'', JInt 0), (''ErrorMessage'', JStr [])]"
             and req' = "IsSafe_request (Supplied 6)" and now' = 101 and w' = initial_world
             and body' = "JObj [(''Value'', JBool False), (''ClientTransactionID'', JInt 6),
                                (''ServerTransactionID'', JInt 101)]"]
  by (simp add: request_defs state_routes_def simple_read_routes_def serve.simps call_defs
                endpoint_defs Let_def initial_world_def)

text \<open>
  Claim C2 as stated fails: the accepted response of \<^verbatim>\<open>IsSafe(ClientTransactionID=1)\<close>
  has neither an \<^verbatim>\<open>ErrorNumber\<close> nor an \<^verbatim>\<open>ErrorMessage\<close> field.
\<close>

theorem simple_read_error_pair_counterexample:
  "status_code (snd (serve DEFAULT_CONFIG 1700000000 (IsSafe_request (Supplied 1)) initial_world))
     = 200
 \<and> reply_field (snd (serve DEFAULT_CONFIG 1700000000 (IsSafe_request (Supplied 1)) initial_world))
     ''ErrorNumber'' = None
 \<and> reply_field (snd (serve DEFAULT_CONFIG 1700000000 (IsSafe_request (Supplied 1)) initial_world))
     ''ErrorMessage'' = None"
  by (simp add: request_defs serve.simps call_defs endpoint_defs Let_def)

text \<open>
  Claim C3. From the default state, \<^verbatim>\<open>IsSafe()\<close> answers \<^verbatim>\<open>Value\<close> false; then
  \<^verbatim>\<open>SetSafe(IsSafe=true, ClientID=1, ClientTransactionID=5)\<close> succeeds and echoes 5; then
  \<^verbatim>\<open>IsSafe(ClientTransactionID=6)\<close> answers \<^verbatim>\<open>Value\<close> true and echoes 6.
\<close>

theorem scenario_IsSafe_SetSafe_IsSafe:
  "snd (serve_all cfg
          [(t1, IsSafe_request Absent),
           (t2, SetSafe_request (Supplied True) (Supplied 1) (Supplied 5)),
           (t3, IsSafe_request (Supplied 6))]
          initial_world)
   = [Reply (JObj [(''Value'', JBool False), (''ClientTransactionID'', JInt 0),
                   (''ServerTransactionID'', JInt t1)]),
      Reply (JObj [(''ClientTransactionID'', JInt 5), (''ServerTransactionID'', JInt t2),
                   (''ErrorNumber'', JInt 0), (''ErrorMessage'', JStr [])]),
      Reply (JObj [(''Value'', JBool True), (''ClientTransactionID'', JInt 6),
                   (''ServerTransactionID'', JInt t3)])]"
proof -
  define w1 where "w1 = fst (serve cfg t1 (IsSafe_request Absent) initial_world)"
  define w2 where
    "w2 = fst (serve cfg t2 (SetSafe_request (Supplied True) (Supplied 1) (Supplied 5)) w1)"
  have r1: "snd (serve cfg t1 (IsSafe_request Absent) initial_world) =
              Reply (JObj [(''Value'', JBool False), (''ClientTransactionID'', JInt 0),
                           (''ServerTransactionID'', JInt t1)])"
    by (simp add: IsSafe_reply initial_world_def)
  have r2: "snd (serve cfg t2 (SetSafe_request (Supplied True) (Supplied 1) (Supplied 5)) w1) =
              Reply (JObj [(''ClientTransactionID'', JInt 5), (''ServerTransactionID'', JInt t2),
                           (''ErrorNumber'', JInt 0), (''ErrorMessage'', JStr [])])"
    by (simp add: SetSafe_reply(1))
  have "is_safe_status w2 = True"
    unfolding w2_def by (simp add: SetSafe_reply(2))
  then have r3: "snd (serve cfg t3 (IsSafe_request (Supplied 6)) w2) =
              Reply (JObj [(''Value'', JBool True), (''ClientTransactionID'', JInt 6),
                           (''ServerTransactionID'', JInt t3)])"
    by (simp add: IsSafe_reply)
  show ?thesis
    using r1 r2 r3 by (simp add: case_prod_beta w1_def w2_def)
qed

text \<open>
  Claim C4. A \<^verbatim>\<open>SetConnected\<close> call whose \<^verbatim>\<open>ClientID\<close> is an integer outside
  [1, 4294967295] is answered with a client error (status 4xx, not 5xx), and the call
  leaves the \<^verbatim>\<open>connected\<close> flag, and everything else, as it was.
\<close>

theorem SetConnected_bad_ClientID_rejected:
  assumes "route req = Route_connected_put"
      and "arg_ClientID req = Supplied cid"
      and "cid < 1 \<or> 4294967295 < cid"
  shows "is_client_error (snd (serve cfg now req w))
       \<and> \<not> is_server_error (snd (serve cfg now req w))
       \<and> connected_status (fst (serve cfg now req w)) = connected_status w
       \<and> fst (serve cfg now req w) = w"
  using assms
  by (auto simp: serve.simps call_defs is_client_error_def is_server_error_def
           split: sum.splits)

text \<open>
  Claim C4 at \<^verbatim>\<open>SetConnected(Connected=false, ClientID=0, ClientTransactionID=5)\<close> on a
  connected device: the device stays connected.
\<close>

theorem SetConnected_bad_ClientID_rejected_witness:
  "route (SetConnected_request (Supplied False) (Supplied 0) (Supplied 5)) = Route_connected_put
 \<and> arg_ClientID (SetConnected_request (Supplied False) (Supplied 0) (Supplied 5)) = Supplied 0
 \<and> ((0::int) < 1 \<or> (4294967295::int) < 0)
 \<and> is_client_error (snd (serve DEFAULT_CONFIG 100
       (SetConnected_request (Supplied False) (Supplied 0) (Supplied 5))
       (initial_world\<lparr>connected_status := True\<rparr>)))
 \<and> connected_status (fst (serve DEFAULT_CONFIG 100
       (SetConnected_request (Supplied False) (Supplied 0) (Supplied 5))
       (initial_world\<lparr>connected_status := True\<rparr>))) = True"
  using SetConnected_bad_ClientID_rejected
          [of "SetConnected_request (Supplied False) (Supplied 0) (Supplied 5)" 0
              DEFAULT_CONFIG 100 "initial_world\<lparr>connected_status := True\<rparr>"]
  by (simp add: request_defs initial_world_def)

text \<open>
  Claim C5. The two flags are independent. A successful \<^verbatim>\<open>SetConnected\<close> sets
  \<^verbatim>\<open>connected\<close> to the supplied value and leaves \<^verbatim>\<open>isSafe\<close> as it was; a successful
  \<^verbatim>\<open>SetSafe\<close> sets \<^verbatim>\<open>isSafe\<close> to the supplied value and leaves \<^verbatim>\<open>connected\<close> as it
  was; and after a successful \<^verbatim>\<open>SetSafe(true)\<close>, whatever \<^verbatim>\<open>SetConnected\<close> calls
  (accepted or rejected) are served next, \<^verbatim>\<open>IsSafe()\<close> answers \<^verbatim>\<open>Value\<close> true.
\<close>

theorem flags_independent:
  "(route creq = Route_connected_put \<and> arg_Connected creq = Supplied c
      \<and> status_code (snd (serve cfg tc creq wc)) = 200
    \<longrightarrow> connected_status (fst (serve cfg tc creq wc)) = c
      \<and> is_safe_status (fst (serve cfg tc creq wc)) = is_safe_status wc)
 \<and> (route sreq = Route_setissafe \<and> arg_IsSafe sreq = Supplied s
      \<and> status_code (snd (serve cfg ts sreq ws)) = 200
    \<longrightarrow> is_safe_status (fst (serve cfg ts sreq ws)) = s
      \<and> connected_status (fst (serve cfg ts sreq ws)) = connected_status ws)
 \<and> (route req = Route_setissafe \<and> arg_IsSafe req = Supplied True
      \<and> status_code (snd (serve cfg now req w)) = 200
      \<and> list_all (\<lambda>p. route (snd p) = Route_connected_put) cs
      \<and> route q = Route_issafe
      \<and> snd (serve cfg t q (fst (serve_all cfg cs (fst (serve cfg now req w))))) = Reply body
    \<longrightarrow> field_of body ''Value'' = Some (JBool True))"
proof (intro conjI impI)
  assume h: "route req = Route_setissafe \<and> arg_IsSafe req = Supplied True
      \<and> status_code (snd (serve cfg now req w)) = 200
      \<and> list_all (\<lambda>p. route (snd p) = Route_connected_put) cs
      \<and> route q = Route_issafe
      \<and> snd (serve cfg t q (fst (serve_all cfg cs (fst (serve cfg now req w))))) = Reply body"
  let ?w1 = "fst (serve cfg now req w)"
  let ?w2 = "fst (serve_all cfg cs ?w1)"
  from h have "is_safe_status ?w1 = True" using SetSafe_effect(1) by blast
  moreover from h have "is_safe_status ?w2 = is_safe_status ?w1"
    using serve_all_SetConnected_keeps_is_safe by blast
  moreover from h have "field_of body ''Value'' = Some (JBool (is_safe_status ?w2))"
    using IsSafe_reports_flag by blast
  ultimately show "field_of body ''Value'' = Some (JBool True)" by simp
qed (simp_all add: SetConnected_effect SetSafe_effect)

text \<open>
  Claim C5 at concrete calls: \<^verbatim>\<open>SetConnected(true)\<close> on an unsafe device,
  \<^verbatim>\<open>SetSafe(false)\<close> on a safe and connected one, and \<^verbatim>\<open>SetSafe(true)\<close> followed by an
  accepted and a rejected \<^verbatim>\<open>SetConnected\<close> and then \<^verbatim>\<open>IsSafe(ClientTransactionID=8)\<close>.
\<close>

theorem flags_independent_witness:
  "route (SetConnected_request (Supplied True) (Supplied 1) (Supplied 4)) = Route_connected_put
 \<and> arg_Connected (SetConnected_request (Supplied True) (Supplied 1) (Supplied 4)) = Supplied True
 \<and> status_code (snd (serve DEFAULT_CONFIG 99
       (SetConnected_request (Supplied True) (Supplied 1) (Supplied 4)) initial_world)) = 200
 \<and> connected_status (fst (serve DEFAULT_CONFIG 99
       (SetConnected_request (Supplied True) (Supplied 1) (Supplied 4)) initial_world)) = True
 \<and> is_safe_status (fst (serve DEFAULT_CONFIG 99
       (SetConnected_request (Supplied True) (Supplied 1) (Supplied 4)) initial_world)) = False
 \<and> route (SetSafe_request (Supplied False) (Supplied 1) (Supplied 3)) = Route_setissafe
 \<and> arg_IsSafe (SetSafe_request (Supplied False) (Supplied 1) (Supplied 3)) = Supplied False
 \<and> status_code (snd (serve DEFAULT_CONFIG 98
       (SetSafe_request (Supplied False) (Supplied 1) (Supplied 3))
       (initial_world\<lparr>connected_status := True, is_safe_status := True\<rparr>))) = 200
 \<and> is_safe_status (fst (serve DEFAULT_CONFIG 98
       (SetSafe_request (Supplied False) (Supplied 1) (Supplied 3))
       (initial_world\<lparr>connected_status := True, is_safe_status := True\<rparr>))) = False
 \<and> connected_status (fst (serve DEFAULT_CONFIG 98
       (SetSafe_request (Supplied False) (Supplied 1) (Supplied 3))
       (initial_world\<lparr>connected_status := True, is_safe_status := True\<rparr>))) = True
 \<and> route (SetSafe_request (Supplied True) (Supplied 1) (Supplied 5)) = Route_setissafe
 \<and> arg_IsSafe (SetSafe_request (Supplied True) (Supplied 1) (Supplied 5)) = Supplied True
 \<and> status_code (snd (serve DEFAULT_CONFIG 100
       (SetSafe_request (Supplied True) (Supplied 1) (Supplied 5)) initial_world)) = 200
 \<and> list_all (\<lambda>p. route (snd p) = Route_connected_put)
       [(101, SetConnected_request (Supplied True) (Supplied 1) (Supplied 6)),
        (102, SetConnected_request (Supplied False) (Supplied 0) (Supplied 7))]
 \<and> route (IsSafe_request (Supplied 8)) = Route_issafe
 \<and> snd (serve DEFAULT_CONFIG 103 (IsSafe_request (Supplied 8))
       (fst (serve_all DEFAULT_CONFIG
          [(101, SetConnected_request (Supplied True) (Supplied 1) (Supplied 6)),
           (102, SetConnected_request (Supplied False) (Supplied 0) (Supplied 7))]
          (fst (serve DEFAULT_CONFIG 100
             (SetSafe_request (Supplied True) (Supplied 1) (Supplied 5)) initial_world)))))
     = Reply (JObj [(''Value'', JBool True), (''ClientTransactionID'', JInt 8),
                    (''ServerTransactionID'', JInt 103)])
 \<and> field_of (JObj [(''Value'', JBool True), (''ClientTransactionID'', JInt 8),
                    (''ServerTransactionID'', JInt 103)]) ''Value'' = Some (JBool True)"
  using flags_independent
          [where creq = "SetConnected_request (Supplied True) (Supplied 1) (Supplied 4)"
             and c = True and tc = 99 and wc = initial_world
             and sreq = "SetSafe_request (Supplied False) (Supplied 1) (Supplied 3)"
             and s = False and ts = 98
             and ws = "initial_world\<lparr>connected_status := True, is_safe_status := True\<rparr>"
             and req = "SetSafe_request (Supplied True) (Supplied 1) (Supplied 5)"
             and cfg = DEFAULT_CONFIG and now = 100 and w = initial_world
             and cs = "[(101, SetConnected_request (Supplied True) (Supplied 1) (Supplied 6)),
                        (102, SetConnected_request (Supplied False) (Supplied 0) (Supplied 7))]"
             and q = "IsSafe_request (Supplied 8)" and t = 103
             and body = "JObj [(''Value'', JBool True), (''ClientTransactionID'', JInt 8),
                               (''ServerTransactionID'', JInt 103)]"]
  by (simp add: request_defs serve.simps call_defs endpoint_defs Let_def initial_world_def)

text \<open>
  Claim C6. The reply of the discovery responder does not depend on the bytes of the
  inbound datagram: two datagrams from the same sender, whatever they hold, lead to the
  same iteration, and what is sent back is the dictionary of \<^verbatim>\<open>AlpacaPort\<close>,
  \<^verbatim>\<open>Manufacturer\<close>, \<^verbatim>\<open>ManufacturerVersion\<close>, \<^verbatim>\<open>DeviceName\<close>, \<^verbatim>\<open>DeviceType\<close>,
  \<^verbatim>\<open>DeviceNumber\<close> and \<^verbatim>\<open>UniqueID\<close> taken from the configuration, with
  \<^verbatim>\<open>DeviceType\<close> equal to \<^verbatim>\<open>safetymonitor\<close>.
\<close>

theorem discovery_reply_ignores_datagram:
  "discovery_iteration cfg (Datagram data1 a, s) n = discovery_iteration cfg (Datagram data2 a, s) n
 \<and> sent (snd (discovery_iteration cfg (Datagram data a, SendOk) n))
     = sent n @ [(a, JObj [(''AlpacaPort'', JInt (alpaca_port cfg)),
                           (''Manufacturer'', JStr (MANUFACTURER cfg)),
                           (''ManufacturerVersion'', JStr (DRIVER_VERSION cfg)),
                           (''DeviceName'', JStr (DEVICE_NAME cfg)),
                           (''DeviceType'', JStr ''safetymonitor''),
                           (''DeviceNumber'', JInt (DEVICE_NUMBER cfg)),
                           (''UniqueID'', JStr (UNIQUE_ID cfg))])]"
  by (simp add: discovery_iteration_def discovery_try_def discovery_response_def DEVICE_TYPE_def
                net_log_def Let_def)

text \<open>
  Claim C7. An iteration of the discovery loop in which receiving or sending raises logs
  the error at level ERROR and leaves the loop running; the iterations after it are
  executed as after any other iteration; and whatever the outside world does, the
  listener is still in its loop.
\<close>

theorem discovery_errors_logged_loop_continues:
  "discovery_iteration cfg (RecvError e, s) n
     = (Running, net_log ERROR (''Error in discovery listener: '' @ e) n)
 \<and> discovery_iteration cfg (Datagram data a, SendError e) n
     = (Running, net_log ERROR (''Error in discovery listener: '' @ e)
                   (net_log DEBUG (''Received discovery request from '' @ str_addr a) n))
 \<and> run_loop (discovery_iteration cfg) (evs1 @ ev # evs2) n
     = run_loop (discovery_iteration cfg) evs2
         (snd (discovery_iteration cfg ev (snd (run_loop (discovery_iteration cfg) evs1 n))))
 \<and> fst (start_discovery_listener cfg None evs n) = Running"
proof (intro conjI)
  show "discovery_iteration cfg (RecvError e, s) n
     = (Running, net_log ERROR (''Error in discovery listener: '' @ e) n)"
    by (simp add: discovery_iteration_def discovery_try_def)
  show "discovery_iteration cfg (Datagram data a, SendError e) n
     = (Running, net_log ERROR (''Error in discovery listener: '' @ e)
                   (net_log DEBUG (''Received discovery request from '' @ str_addr a) n))"
    by (simp add: discovery_iteration_def discovery_try_def Let_def)
  show "fst (start_discovery_listener cfg None evs n) = Running"
    by (simp add: start_discovery_listener_def discovery_loop_Running)
  let ?L = "run_loop (discovery_iteration cfg)"
  obtain n1 where l1: "?L evs1 n = (Running, n1)"
    using discovery_loop_Running [of cfg evs1 n] by (cases "?L evs1 n") simp
  obtain n2 where l2: "discovery_iteration cfg ev n1 = (Running, n2)"
    using discovery_iteration_Running [of cfg ev n1]
    by (cases "discovery_iteration cfg ev n1") simp
  show "?L (evs1 @ ev # evs2) n = ?L evs2 (snd (discovery_iteration cfg ev (snd (?L evs1 n))))"
    by (simp add: run_loop_append l1 l2)
qed

text \<open>
  Claim C8 fails on the code. At the second 1700000000 the three Management routes answer
  the \<^verbatim>\<open>ServerTransactionID\<close> 1, 2 and 3, and \<^verbatim>\<open>/management/apiversions\<close> answers
  the same 1 a minute later: the value is not taken from the clock and is not fresh. The
  Device API functions of the same file do take it from the clock, as \<^verbatim>\<open>IsSafe\<close> at the
  same second shows.
\<close>

theorem management_ServerTransactionID_not_from_clock:
  "reply_field (snd (serve DEFAULT_CONFIG 1700000000
       \<lparr>route = Route_apiversions, arg_Connected = Absent, arg_IsSafe = Absent,
        arg_ClientID = Absent, arg_ClientTransactionID = Absent\<rparr> initial_world))
     ''ServerTransactionID'' = Some (JInt 1)
 \<and> reply_field (snd (serve DEFAULT_CONFIG 1700000060
       \<lparr>route = Route_apiversions, arg_Connected = Absent, arg_IsSafe = Absent,
        arg_ClientID = Absent, arg_ClientTransactionID = Absent\<rparr> initial_world))
     ''ServerTransactionID'' = Some (JInt 1)
 \<and> reply_field (snd (serve DEFAULT_CONFIG 1700000000
       \<lparr>route = Route_management_description, arg_Connected = Absent, arg_IsSafe = Absent,
        arg_ClientID = Absent, arg_ClientTransactionID = Absent\<rparr> initial_world))
     ''ServerTransactionID'' = Some (JInt 2)
 \<and> reply_field (snd (serve DEFAULT_CONFIG 1700000000
       \<lparr>route = Route_configureddevices, arg_Connected = Absent, arg_IsSafe = Absent,
        arg_ClientID = Absent, arg_ClientTransactionID = Absent\<rparr> initial_world))
     ''ServerTransactionID'' = Some (JInt 3)
 \<and> reply_field (snd (serve DEFAULT_CONFIG 1700000000 (IsSafe_request Absent) initial_world))
     ''ServerTransactionID'' = Some (JInt 1700000000)"
  by (simp add: request_defs serve.simps call_defs endpoint_defs Let_def)

text \<open>
  Claim C9 fails on the code. The byte \<^verbatim>\<open>0xE0\<close>, which \<^verbatim>\<open>msvcrt.getch()\<close> returns first
  for an arrow key, is neither the toggle key nor the quit key; decoding it raises, the
  exception leaves \<^verbatim>\<open>monitor_keyboard\<close>, and no later key press is looked at: the flag
  stays as it was whatever is pressed afterwards.
\<close>

theorem undecodable_key_stops_keyboard_monitor:
  "monitor_keyboard (KeyHit (CHR 0xE0) # later) w
     = (Raised (UnicodeDecodeError (CHR 0xE0)), keyboard_banner w)
 \<and> is_safe_status (snd (monitor_keyboard (KeyHit (CHR 0xE0) # KeyHit CHR ''s'' # later) w))
     = is_safe_status w"
  by (simp add: monitor_keyboard_def keyboard_iteration_def decode_utf8_def keyboard_banner_def
                Let_def)

text \<open>
  Claim C10. Every read operation of the Device API and Management API layers
  (\<^verbatim>\<open>IsSafe\<close>, \<^verbatim>\<open>GetConnected\<close>, \<^verbatim>\<open>Description\<close>, \<^verbatim>\<open>DriverInfo\<close>, \<^verbatim>\<open>DriverVersion\<close>,
  \<^verbatim>\<open>Name\<close>, \<^verbatim>\<open>SupportedActions\<close>, \<^verbatim>\<open>apiversions\<close>, \<^verbatim>\<open>description\<close>,
  \<^verbatim>\<open>configureddevices\<close>) leaves the \<^verbatim>\<open>connected\<close> flag and the \<^verbatim>\<open>isSafe\<close> flag as
  they were, from every state and with every parameter.
\<close>

theorem reads_keep_flags:
  assumes "route req \<in> set read_routes"
  shows "connected_status (fst (serve cfg now req w)) = connected_status w
       \<and> is_safe_status (fst (serve cfg now req w)) = is_safe_status w"
  using assms
  by (auto simp: read_routes_def serve.simps call_defs endpoint_defs Let_def
           split: sum.splits)

text \<open>Claim C10 at \<^verbatim>\<open>GetConnected(ClientID=1, ClientTransactionID=1)\<close> on a connected, safe device.\<close>

theorem reads_keep_flags_witness:
  "route (GetConnected_request (Supplied 1) (Supplied 1)) \<in> set read_routes
 \<and> connected_status (fst (serve DEFAULT_CONFIG 100 (GetConnected_request (Supplied 1) (Supplied 1))
       (initial_world\<lparr>connected_status := True, is_safe_status := True\<rparr>))) = True
 \<and> is_safe_status (fst (serve DEFAULT_CONFIG 100 (GetConnected_request (Supplied 1) (Supplied 1))
       (initial_world\<lparr>connected_status := True, is_safe_status := True\<rparr>))) = True"
  using reads_keep_flags
          [of "GetConnected_request (Supplied 1) (Supplied 1)" DEFAULT_CONFIG 100
              "initial_world\<lparr>connected_status := True, is_safe_status := True\<rparr>"]
  by (simp add: request_defs read_routes_def initial_world_def)

end
